theory Spec2Isabelle
  imports Complex_Main
begin

section \<open>Python values: errors, slices, formatting\<close>

text \<open>
  The event generator is Python on numpy arrays.  Unbounded Python integers are \<open>int\<close>,
  floats are \<open>real\<close> (with an explicit not-a-number where the code stores one), a raised
  exception is the \<open>Inl\<close> of a sum.  A data set (a dict of equally long columns) is a
  list of rows.
\<close>

datatype py_error =
    IndexError
  | KeyError string
  | UnboundLocalError string
  | ZeroDivisionError
  | NotImplementedError
  | ValueError
  | TypeError

text \<open>A slice bound of \<open>xs[a:b]\<close>: negative bounds count from the end, all are clamped.\<close>

definition slice_bound :: "int \<Rightarrow> nat \<Rightarrow> nat" where
  "slice_bound i n = (if i < 0 then nat (max (i + int n) 0) else min (nat i) n)"

definition py_slice :: "'a list \<Rightarrow> int \<Rightarrow> int \<Rightarrow> 'a list" where
  "py_slice xs a b =
     (let s = slice_bound a (length xs); e = slice_bound b (length xs)
      in take (e - s) (drop s xs))"

text \<open>\<open>np.unique\<close>: the distinct values, sorted.\<close>

definition np_unique :: "int list \<Rightarrow> int list" where
  "np_unique xs = sort (remdups xs)"

text \<open>\<open>"{:04}".format(n)\<close>: decimal, zero-padded to four characters, sign included.\<close>

definition digit_char :: "nat \<Rightarrow> char" where
  "digit_char d = ''0123456789'' ! d"

fun dec_digits :: "nat \<Rightarrow> string" where
  "dec_digits n = (if n < 10 then [digit_char n] else dec_digits (n div 10) @ [digit_char (n mod 10)])"

declare dec_digits.simps [simp del]

definition zero_pad :: "nat \<Rightarrow> string \<Rightarrow> string" where
  "zero_pad w s = replicate (w - length s) (CHR ''0'') @ s"

definition format_04 :: "int \<Rightarrow> string" where
  "format_04 i =
     (if i < 0 then ''-'' @ zero_pad 3 (dec_digits (nat (- i)))
      else zero_pad 4 (dec_digits (nat i)))"

section \<open>write_events_to_hdf5\<close>

text \<open>
  The writer of the generator: it splits the table into files by event group id.  The
  \<open>while True\<close> loop is the recursion \<open>write_loop\<close> on the file number, with the
  variables the loop carries as arguments; the result is the list of files written.

  The two attributes the writer reads.  \<open>start_event_id\<close> may be absent from the dict
  (it is then set to 0).
\<close>

record run_attributes =
  attr_n_events :: int
  attr_start_event_id :: "int option"

text \<open>One written file: its name, the two event counts among its attributes, and the rows
  \<open>value[start_index:stop_index]\<close> of every column.\<close>

record 'a shard =
  shard_filename :: string
  shard_n_events :: int
  shard_total_number_of_events :: int
  shard_start_index :: nat
  shard_stop_index :: nat
  shard_rows :: "'a list"

text \<open>\<open>np.squeeze(np.argwhere(ids == evt_id_last))\<close> and the stop index one past its last entry.\<close>

definition argwhere :: "int list \<Rightarrow> int \<Rightarrow> nat list" where
  "argwhere ids v = filter (\<lambda>i. ids ! i = v) [0..<length ids]"

definition stop_index_of :: "int list \<Rightarrow> int \<Rightarrow> py_error + nat" where
  "stop_index_of ids v =
     (case argwhere ids v of [] \<Rightarrow> Inl IndexError | t # ts \<Rightarrow> Inr (last (t # ts) + 1))"

definition evt_ids_of_file :: "int list \<Rightarrow> int \<Rightarrow> nat \<Rightarrow> int list" where
  "evt_ids_of_file ids K iFile = py_slice (np_unique ids) (int iFile * K) ((int iFile + 1) * K)"

text \<open>The file name of shard \<open>iFile\<close> (source lines 135 and 141-142).\<close>

definition filename2 :: "string \<Rightarrow> nat \<Rightarrow> int \<Rightarrow> int \<Rightarrow> int \<Rightarrow> string" where
  "filename2 filename iFile n_events_per_file n_events start_file_id =
     (if iFile > 0 \<or> n_events_per_file < n_events
      then filename @ ''.part'' @ format_04 (int iFile + start_file_id)
      else filename)"


definition wrap_int64 :: "int \<Rightarrow> int" where
  "wrap_int64 x = (x + 2 ^ 63) mod 2 ^ 64 - 2 ^ 63"

text \<open>The number of events of the file (source lines 182-191, cases 4, 2, 3, 1 in that
  order), each arithmetic step on an int64 wrapped.\<close>

definition n_events_this_file :: "nat \<Rightarrow> int list \<Rightarrow> int \<Rightarrow> int \<Rightarrow> int \<Rightarrow> int \<Rightarrow> int" where
  "n_events_this_file iFile evt_ids_next_file total_number_of_events start_event_id
       evt_id_last evt_id_last_previous =
     (if iFile = 0 \<and> evt_ids_next_file = [] then total_number_of_events
      else if evt_ids_next_file = []
        then wrap_int64 (wrap_int64 (total_number_of_events - wrap_int64 (evt_id_last_previous + 1))
                           + start_event_id)
      else if iFile = 0 then wrap_int64 (wrap_int64 (evt_id_last - start_event_id) + 1)
      else wrap_int64 (evt_id_last - evt_id_last_previous))"

function write_loop ::
  "string \<Rightarrow> ('a \<Rightarrow> int) \<Rightarrow> 'a list \<Rightarrow> int \<Rightarrow> int \<Rightarrow> int \<Rightarrow> int \<Rightarrow> nat \<Rightarrow> int \<Rightarrow> nat
     \<Rightarrow> py_error + 'a shard list" where
  "write_loop filename key data_sets n_events start_event_id K start_file_id
       iFile evt_id_last_previous start_index =
     (let evt_ids_this_file = evt_ids_of_file (map key data_sets) K iFile
      in if evt_ids_this_file = [] then Inr []
         else
          (let evt_id_last = last evt_ids_this_file
           in case stop_index_of (map key data_sets) evt_id_last of
                Inl e \<Rightarrow> Inl e
              | Inr stop_index \<Rightarrow>
                 (let evt_ids_next_file = evt_ids_of_file (map key data_sets) K (iFile + 1);
                      fout = \<lparr> shard_filename = filename2 filename iFile K n_events start_file_id,
                               shard_n_events =
                                 n_events_this_file iFile evt_ids_next_file n_events start_event_id
                                   evt_id_last evt_id_last_previous,
                               shard_total_number_of_events = n_events,
                               shard_start_index = start_index,
                               shard_stop_index = stop_index,
                               shard_rows = take (stop_index - start_index) (drop start_index data_sets) \<rparr>
                  in if evt_id_last = n_events then Inr [fout]
                     else (case write_loop filename key data_sets n_events start_event_id K
                                  start_file_id (iFile + 1) evt_id_last stop_index of
                             Inl e \<Rightarrow> Inl e
                           | Inr rest \<Rightarrow> Inr (fout # rest)))))"
  by pat_completeness auto

lemma slice_bound_le: "slice_bound i n \<le> n"
  by (auto simp: slice_bound_def)

lemma slice_bound_mono_neg: "b \<le> a \<Longrightarrow> a < 0 \<Longrightarrow> slice_bound b n \<le> slice_bound a n"
  by (auto simp: slice_bound_def)

lemma evt_ids_of_file_nonempty_bound:
  assumes "evt_ids_of_file ids K iFile \<noteq> []"
  shows "iFile < length (np_unique ids)"
proof -
  let ?n = "length (np_unique ids)"
  let ?s = "slice_bound (int iFile * K) ?n"
  let ?e = "slice_bound ((int iFile + 1) * K) ?n"
  from assms have lt: "?s < ?e" and sn: "?s < ?n"
    by (auto simp: evt_ids_of_file_def py_slice_def Let_def)
  show ?thesis
  proof (cases "K \<le> 0")
    case True
    have "iFile = 0"
    proof (rule ccontr)
      assume "iFile \<noteq> 0"
      then have i: "1 \<le> int iFile" by simp
      show False
      proof (cases "K = 0")
        case True
        then have "?e = ?s" by simp
        with lt show False by simp
      next
        case False
        with \<open>K \<le> 0\<close> have K: "K < 0" by simp
        have b: "(int iFile + 1) * K \<le> int iFile * K"
          using K by (simp add: algebra_simps)
        have a: "int iFile * K < 0"
          using K i by (simp add: mult_pos_neg)
        from slice_bound_mono_neg [OF b a] have "?e \<le> ?s" .
        with lt show False by simp
      qed
    qed
    moreover from sn have "0 < ?n" by linarith
    ultimately show ?thesis by simp
  next
    case False
    then have K: "1 \<le> K" by simp
    have "int iFile \<le> int iFile * K"
      using K by (simp add: mult_le_cancel_left1)
    moreover have "int iFile * K < int ?n"
      using sn K by (auto simp: slice_bound_def split: if_splits)
    ultimately show ?thesis by simp
  qed
qed

termination write_loop
  by (relation "measure (\<lambda>(filename, key, data_sets, n_events, start_event_id, K, start_file_id,
                          iFile, evt_id_last_previous, start_index).
                          length (np_unique (map key data_sets)) - iFile)")
     (auto dest: evt_ids_of_file_nonempty_bound)

declare write_loop.simps [simp del]

definition write_events_to_hdf5 ::
  "string \<Rightarrow> ('a \<Rightarrow> int) \<Rightarrow> 'a list \<Rightarrow> run_attributes \<Rightarrow> int option \<Rightarrow> int
     \<Rightarrow> py_error + 'a shard list" where
  "write_events_to_hdf5 filename key data_sets attributes n_events_per_file start_file_id =
     (let n_events = attr_n_events attributes;
          start_event_id = (case attr_start_event_id attributes of None \<Rightarrow> 0 | Some s \<Rightarrow> s);
          K = (case n_events_per_file of None \<Rightarrow> n_events | Some k \<Rightarrow> k)
      in case data_sets of
           [] \<Rightarrow> Inl IndexError
         | _ # _ \<Rightarrow> write_loop filename key data_sets n_events start_event_id K start_file_id 0 0 0)"



section \<open>primary_energy_from_deposited\<close>

text \<open>
  Python's \<open>/\<close> on floats raises on a zero divisor.  The function has no \<open>else\<close>
  branches: where no \<open>return\<close> is reached it returns \<open>None\<close>.
\<close>

definition py_truediv :: "real \<Rightarrow> real \<Rightarrow> py_error + real" where
  "py_truediv a b = (if b = 0 then Inl ZeroDivisionError else Inr (a / b))"

definition primary_energy_from_deposited ::
  "real \<Rightarrow> string \<Rightarrow> int \<Rightarrow> real \<Rightarrow> py_error + real option" where
  "primary_energy_from_deposited Edep ccnc flavor y =
     (if ccnc = ''nc'' then map_sum id Some (py_truediv Edep y)
      else if ccnc = ''cc'' then
        (if \<bar>flavor\<bar> = 12 then Inr (Some Edep)
         else if \<bar>flavor\<bar> = 14 then map_sum id Some (py_truediv Edep y)
         else if \<bar>flavor\<bar> = 16 then map_sum id Some (py_truediv Edep y)
         else Inr None)
      else Inr None)"

section \<open>intersection_box_ray\<close>

text \<open>
  Vectors are triples of reals; \<open>bounds\<close> is the pair of corner points of the box and
  \<open>ray\<close> the pair of origin and direction.  \<open>sign[k]\<close> selects the corner:
  \<open>bounds[sign[k]]\<close> is the second corner when \<open>invdir[k] < 0\<close>.  The model is for
  directions without a zero component (numpy would divide to an infinity there).
\<close>

type_synonym vec3 = "real \<times> real \<times> real"

definition vx :: "vec3 \<Rightarrow> real" where "vx v = fst v"
definition vy :: "vec3 \<Rightarrow> real" where "vy v = fst (snd v)"
definition vz :: "vec3 \<Rightarrow> real" where "vz v = snd (snd v)"

definition corner :: "vec3 \<times> vec3 \<Rightarrow> bool \<Rightarrow> vec3" where
  "corner bounds neg = (if neg then snd bounds else fst bounds)"

definition intersection_box_ray :: "vec3 \<times> vec3 \<Rightarrow> vec3 \<times> vec3 \<Rightarrow> bool" where
  "intersection_box_ray bounds ray =
     (let orig = fst ray;
          direction = snd ray;
          invdir = (1 / vx direction, 1 / vy direction, 1 / vz direction);
          sign0 = (vx invdir < 0);
          sign1 = (vy invdir < 0);
          sign2 = (vz invdir < 0);
          tmin = (vx (corner bounds sign0) - vx orig) * vx invdir;
          tmax = (vx (corner bounds (\<not> sign0)) - vx orig) * vy invdir;
          tymin = (vy (corner bounds sign1) - vy orig) * vy invdir;
          tymax = (vy (corner bounds (\<not> sign1)) - vy orig) * vy invdir
      in if tmin > tymax \<or> tymin > tmax then False
         else
          (let tmin = (if tymin > tmin then tymin else tmin);
               tmax = (if tymax < tmax then tymax else tmax);
               tzmin = (vz (corner bounds sign2) - vz orig) * vz invdir;
               tzmax = (vz (corner bounds (\<not> sign2)) - vz orig) * vz invdir
           in if tmin > tzmax \<or> tzmin > tmax then False
              else
               (let tmin = (if tzmin > tmin then tzmin else tmin);
                    tmax = (if tzmax < tmax then tzmax else tmax);
                    t = tmin
                in if t < 0 then (let t = tmax in if t < 0 then False else True)
                   else True)))"

text \<open>What the slab test is to decide: some point of the ray, at \<open>t \<ge> 0\<close>, is in the box.\<close>

definition in_box :: "vec3 \<times> vec3 \<Rightarrow> vec3 \<Rightarrow> bool" where
  "in_box bounds p =
     (vx (fst bounds) \<le> vx p \<and> vx p \<le> vx (snd bounds) \<and>
      vy (fst bounds) \<le> vy p \<and> vy p \<le> vy (snd bounds) \<and>
      vz (fst bounds) \<le> vz p \<and> vz p \<le> vz (snd bounds))"

definition ray_point :: "vec3 \<times> vec3 \<Rightarrow> real \<Rightarrow> vec3" where
  "ray_point ray t =
     (vx (fst ray) + t * vx (snd ray), vy (fst ray) + t * vy (snd ray),
      vz (fst ray) + t * vz (snd ray))"

section \<open>The event table\<close>

text \<open>
  A float column may hold \<open>np.nan\<close>; arithmetic carries it along.  \<open>data_sets\<close> is a
  dict of columns of one length; a row of the table is the record of its entries at one
  index, with the keys of the dict as field names.
\<close>

datatype pyfloat = Fl real | NaN

definition fl_lift :: "(real \<Rightarrow> real) \<Rightarrow> pyfloat \<Rightarrow> pyfloat" where
  "fl_lift f v = (case v of Fl y \<Rightarrow> Fl (f y) | NaN \<Rightarrow> NaN)"

record row =
  azimuths :: real
  zeniths :: real
  xx :: real
  yy :: real
  zz :: real
  event_group_ids :: int
  n_interaction :: int
  vertex_times :: real
  flavors :: int
  energies :: real
  interaction_type :: string
  inelasticity :: pyfloat
  shower_energies :: pyfloat
  shower_type :: string

text \<open>The values sampled for one event (source lines 983-1015).\<close>

record event_sample =
  s_azimuth :: real
  s_zenith :: real
  s_x :: real
  s_y :: real
  s_z :: real
  s_flavor :: int
  s_energy :: real
  s_ccnc :: string
  s_inelasticity :: real

text \<open>
  The baseline table (lines 991-994 and 1017-1019): ids count up from
  \<open>start_event_id\<close>, every row is interaction 1 at time 0 with a hadronic shower of energy
  \<open>energies * inelasticity\<close>.
\<close>

definition baseline_row :: "int \<Rightarrow> nat \<Rightarrow> event_sample \<Rightarrow> row" where
  "baseline_row start_event_id i s =
     \<lparr> azimuths = s_azimuth s, zeniths = s_zenith s,
       xx = s_x s, yy = s_y s, zz = s_z s,
       event_group_ids = int i + start_event_id,
       n_interaction = 1, vertex_times = 0,
       flavors = s_flavor s, energies = s_energy s,
       interaction_type = s_ccnc s,
       inelasticity = Fl (s_inelasticity s),
       shower_energies = Fl (s_energy s * s_inelasticity s),
       shower_type = ''had'' \<rparr>"

definition baseline_table :: "int \<Rightarrow> event_sample list \<Rightarrow> row list" where
  "baseline_table start_event_id samples =
     map (\<lambda>i. baseline_row start_event_id i (samples ! i)) [0..<length samples]"

subsection \<open>Electromagnetic showers of electron charged-current events (lines 1021-1032)\<close>

definition em_shower_mask :: "row \<Rightarrow> bool" where
  "em_shower_mask d = (interaction_type d = ''cc'' \<and> \<bar>flavors d\<bar> = 12)"

text \<open>\<open>list.insert(k, x)\<close> for \<open>k \<ge> 0\<close>: an index past the end appends.\<close>

definition list_insert :: "nat \<Rightarrow> 'a \<Rightarrow> 'a list \<Rightarrow> 'a list" where
  "list_insert k x xs = take k xs @ x # drop k xs"

text \<open>
  The loop over the masked indices, with the table and \<open>n_inserted\<close> as its state.  Each
  index read is in range: a masked index is below the length of the table, and the table
  has grown by \<open>n_inserted\<close> rows since.
\<close>

fun insert_em_loop :: "row list \<Rightarrow> nat \<Rightarrow> nat list \<Rightarrow> row list" where
  "insert_em_loop data_sets n_inserted [] = data_sets"
| "insert_em_loop data_sets n_inserted (i # rest) =
     (let copied = list_insert (i + 1 + n_inserted) (data_sets ! (i + n_inserted)) data_sets;
          d = copied ! (i + 1 + n_inserted);
          updated = copied[i + 1 + n_inserted :=
                      d\<lparr> shower_energies := fl_lift (\<lambda>y. (1 - y) * energies d) (inelasticity d),
                         shower_type := ''em'' \<rparr>]
      in insert_em_loop updated (n_inserted + 1) rest)"

definition add_em_showers :: "row list \<Rightarrow> row list" where
  "add_em_showers data_sets =
     insert_em_loop data_sets 0
       (filter (\<lambda>i. em_shower_mask (data_sets ! i)) [0..<length data_sets])"

text \<open>The rows the specification puts in the place of a row \<open>d\<close>.\<close>

definition split_row :: "row \<Rightarrow> row list" where
  "split_row d =
     (if em_shower_mask d
      then [d, d\<lparr> shower_energies := fl_lift (\<lambda>y. (1 - y) * energies d) (inelasticity d),
                  shower_type := ''em'' \<rparr>]
      else [d])"

section \<open>Secondary interactions (generate_eventlist_cylinder, lines 1040-1132)\<close>

text \<open>
  The numeric attributes are a dict from keys to floats; reading a missing key raises.
  \<open>ebind\<close> passes a raised error on.
\<close>

type_synonym attributes = "string \<rightharpoonup> real"

definition lookup :: "attributes \<Rightarrow> string \<Rightarrow> py_error + real" where
  "lookup a k = (case a k of None \<Rightarrow> Inl (KeyError k) | Some v \<Rightarrow> Inr v)"

definition ebind :: "py_error + 'a \<Rightarrow> ('a \<Rightarrow> py_error + 'b) \<Rightarrow> py_error + 'b" where
  "ebind m f = (case m of Inl e \<Rightarrow> Inl e | Inr v \<Rightarrow> f v)"

text \<open>A product of the lepton propagation, as the propagator returns it.\<close>

record product =
  p_distance :: real
  p_energy :: real
  p_shower_type :: string
  p_code :: int

text \<open>\<open>cspeed\<close> is the speed of light in the units of the run; it is an argument here.\<close>

definition get_product_position_time :: "real \<Rightarrow> row \<Rightarrow> product \<Rightarrow> real \<times> real \<times> real \<times> real" where
  "get_product_position_time cspeed d prd =
     (let dist = p_distance prd;
          time = dist / cspeed;
          x = xx d - dist * sin (zeniths d) * cos (azimuths d);
          y = yy d - dist * sin (zeniths d) * sin (azimuths d);
          z = zz d - dist * cos (zeniths d)
      in (x, y, z, time))"

text \<open>The two nested tests against the fiducial cylinder (lines 1076-1077, 1100-1101);
  \<open>and\<close> reads its second operand only when the first holds.\<close>

definition in_fiducial_cylinder :: "attributes \<Rightarrow> real \<Rightarrow> real \<Rightarrow> py_error + bool" where
  "in_fiducial_cylinder attrs r z =
     ebind (lookup attrs ''fiducial_rmin'') (\<lambda>rmin.
       if r \<ge> rmin then
         ebind (lookup attrs ''fiducial_rmax'') (\<lambda>rmax.
           if r \<le> rmax then
             ebind (lookup attrs ''fiducial_zmin'') (\<lambda>zmin.
               if z \<ge> zmin then
                 ebind (lookup attrs ''fiducial_zmax'') (\<lambda>zmax. Inr (z \<le> zmax))
               else Inr False)
           else Inr False)
       else Inr False)"

definition get_intersection_volume_neutrino :: "attributes \<Rightarrow> vec3 \<Rightarrow> vec3 \<Rightarrow> py_error + bool" where
  "get_intersection_volume_neutrino attrs vertex direction =
     (if attrs ''xmax'' \<noteq> None then
        ebind (lookup attrs ''fiducial_xmin'') (\<lambda>xmin.
        ebind (lookup attrs ''fiducial_ymin'') (\<lambda>ymin.
        ebind (lookup attrs ''fiducial_zmin'') (\<lambda>zmin.
        ebind (lookup attrs ''fiducial_xmax'') (\<lambda>xmax.
        ebind (lookup attrs ''fiducial_ymax'') (\<lambda>ymax.
        ebind (lookup attrs ''fiducial_zmax'') (\<lambda>zmax.
          Inr (intersection_box_ray ((xmin, ymin, zmin), (xmax, ymax, zmax)) (vertex, direction))))))))
      else Inr True)"

definition mask_leptons :: "row \<Rightarrow> bool" where
  "mask_leptons d =
     ((interaction_type d = ''cc'' \<and> \<bar>flavors d\<bar> = 16) \<or>
      (interaction_type d = ''cc'' \<and> \<bar>flavors d\<bar> = 14))"

definition lepton_codes :: "row \<Rightarrow> int" where
  "lepton_codes d =
     (let c = flavors d;
          c = (if c = 14 then 13 else c);
          c = (if c = - 14 then - 13 else c);
          c = (if c = 16 then 15 else c);
          c = (if c = - 16 then - 15 else c)
      in c)"

definition E_all_leptons :: "row \<Rightarrow> pyfloat" where
  "E_all_leptons d = fl_lift (\<lambda>y. (1 - y) * energies d) (inelasticity d)"

definition lepton_positions :: "row \<Rightarrow> vec3" where
  "lepton_positions d = (xx d, yy d, zz d)"

definition lepton_directions :: "row \<Rightarrow> vec3" where
  "lepton_directions d =
     (- sin (zeniths d) * cos (azimuths d), - sin (zeniths d) * sin (azimuths d), - cos (zeniths d))"

text \<open>\<open>xs[-1] = v\<close>, as an update of the last entry.\<close>

definition set_last :: "('a \<Rightarrow> 'a) \<Rightarrow> 'a list \<Rightarrow> 'a list" where
  "set_last f xs = (if xs = [] then xs else butlast xs @ [f (last xs)])"

text \<open>
  The body of the loop over the products (lines 1097-1132).  Its state is the fiducial
  table, \<open>first_inserted\<close> and the running \<open>n_interaction\<close>.
\<close>

definition process_product ::
  "attributes \<Rightarrow> real \<Rightarrow> row \<Rightarrow> row list \<times> bool \<times> int \<Rightarrow> product \<Rightarrow> py_error + row list \<times> bool \<times> int" where
  "process_product attrs cspeed d st prd =
     (case st of (data_sets_fiducial, first_inserted, n_int) \<Rightarrow>
       (case get_product_position_time cspeed d prd of (x, y, z, vertex_time) \<Rightarrow>
          ebind (in_fiducial_cylinder attrs (sqrt (x ^ 2 + y ^ 2)) z) (\<lambda>inside.
            if inside then
              (let copies = (if \<not> first_inserted then 2 else 1 :: nat);
                   appended = data_sets_fiducial @ replicate copies d
               in Inr (set_last (\<lambda>e. e\<lparr> n_interaction := n_int,
                                         shower_energies := Fl (p_energy prd),
                                         inelasticity := NaN,
                                         interaction_type := p_shower_type prd,
                                         shower_type := p_shower_type prd,
                                         xx := x, yy := y, zz := z,
                                         vertex_times := vertex_time,
                                         flavors := p_code prd \<rparr>) appended,
                       True, n_int + 1))
            else Inr st)))"

fun products_loop ::
  "attributes \<Rightarrow> real \<Rightarrow> row \<Rightarrow> row list \<times> bool \<times> int \<Rightarrow> product list \<Rightarrow> py_error + row list \<times> bool \<times> int" where
  "products_loop attrs cspeed d st [] = Inr st"
| "products_loop attrs cspeed d st (prd # products) =
     ebind (process_product attrs cspeed d st prd) (\<lambda>st'. products_loop attrs cspeed d st' products)"

text \<open>One pass of the loop over the events (lines 1067-1132); \<open>get_secondaries\<close> is the
  external propagator, called for one lepton.\<close>

definition process_event ::
  "attributes \<Rightarrow> real \<Rightarrow> (pyfloat \<Rightarrow> int \<Rightarrow> vec3 \<Rightarrow> vec3 \<Rightarrow> product list) \<Rightarrow> row list \<Rightarrow> row
     \<Rightarrow> py_error + row list" where
  "process_event attrs cspeed get_secondaries data_sets_fiducial d =
     ebind (in_fiducial_cylinder attrs (sqrt (xx d ^ 2 + yy d ^ 2)) (zz d)) (\<lambda>inside.
       let fiducial1 = (if inside then data_sets_fiducial @ [d] else data_sets_fiducial);
           first_inserted = inside
       in if mask_leptons d then
            ebind (get_intersection_volume_neutrino attrs (xx d, yy d, zz d) (lepton_directions d))
              (\<lambda>geometry_selection.
                 if geometry_selection then
                   ebind (products_loop attrs cspeed d (fiducial1, first_inserted, 2)
                            (get_secondaries (E_all_leptons d) (lepton_codes d)
                               (lepton_positions d) (lepton_directions d)))
                     (\<lambda>st. Inr (fst st))
                 else Inr fiducial1)
          else Inr fiducial1)"

fun events_loop ::
  "attributes \<Rightarrow> real \<Rightarrow> (pyfloat \<Rightarrow> int \<Rightarrow> vec3 \<Rightarrow> vec3 \<Rightarrow> product list) \<Rightarrow> row list \<Rightarrow> row list
     \<Rightarrow> py_error + row list" where
  "events_loop attrs cspeed get_secondaries data_sets_fiducial [] = Inr data_sets_fiducial"
| "events_loop attrs cspeed get_secondaries data_sets_fiducial (d # data_sets) =
     ebind (process_event attrs cspeed get_secondaries data_sets_fiducial d)
       (\<lambda>fiducial'. events_loop attrs cspeed get_secondaries fiducial' data_sets)"

text \<open>The secondary record the specification describes, for the product \<open>prd\<close> of the
  event \<open>d\<close> as its \<open>n\<close>-th interaction, and the test that the product lies in the
  fiducial cylinder.\<close>

definition secondary_record :: "real \<Rightarrow> row \<Rightarrow> int \<Rightarrow> product \<Rightarrow> row" where
  "secondary_record cspeed d n prd =
     d\<lparr> n_interaction := n,
        shower_energies := Fl (p_energy prd),
        shower_type := p_shower_type prd,
        interaction_type := p_shower_type prd,
        xx := xx d - p_distance prd * sin (zeniths d) * cos (azimuths d),
        yy := yy d - p_distance prd * sin (zeniths d) * sin (azimuths d),
        zz := zz d - p_distance prd * cos (zeniths d),
        vertex_times := p_distance prd / cspeed,
        inelasticity := NaN,
        flavors := p_code prd \<rparr>"

definition inside_cylinder :: "real \<Rightarrow> real \<Rightarrow> real \<Rightarrow> real \<Rightarrow> real \<Rightarrow> real \<Rightarrow> real \<Rightarrow> bool" where
  "inside_cylinder rmin rmax zmin zmax x y z =
     (rmin \<le> sqrt (x ^ 2 + y ^ 2) \<and> sqrt (x ^ 2 + y ^ 2) \<le> rmax \<and> zmin \<le> z \<and> z \<le> zmax)"

definition product_inside :: "real \<Rightarrow> real \<Rightarrow> real \<Rightarrow> real \<Rightarrow> row \<Rightarrow> product \<Rightarrow> bool" where
  "product_inside rmin rmax zmin zmax d prd =
     inside_cylinder rmin rmax zmin zmax
       (xx d - p_distance prd * sin (zeniths d) * cos (azimuths d))
       (yy d - p_distance prd * sin (zeniths d) * sin (azimuths d))
       (zz d - p_distance prd * cos (zeniths d))"

definition cylinder_attributes :: "attributes \<Rightarrow> real \<Rightarrow> real \<Rightarrow> real \<Rightarrow> real \<Rightarrow> bool" where
  "cylinder_attributes attrs rmin rmax zmin zmax =
     (attrs ''fiducial_rmin'' = Some rmin \<and> attrs ''fiducial_rmax'' = Some rmax \<and>
      attrs ''fiducial_zmin'' = Some zmin \<and> attrs ''fiducial_zmax'' = Some zmax \<and>
      attrs ''xmax'' = None)"

text \<open>The rows the loop over the events appends for one event \<open>d\<close>: the row of the
  event, when its vertex or one of its products lies in the fiducial cylinder, and then
  the secondary records of the products in the cylinder.  Only muon and tau
  charged-current events have products.\<close>

definition event_rows ::
  "real \<Rightarrow> (pyfloat \<Rightarrow> int \<Rightarrow> vec3 \<Rightarrow> vec3 \<Rightarrow> product list) \<Rightarrow> real \<Rightarrow> real \<Rightarrow> real \<Rightarrow> real \<Rightarrow> row
     \<Rightarrow> row list" where
  "event_rows cspeed get_secondaries rmin rmax zmin zmax d =
     (let fps = (if mask_leptons d
                 then filter (product_inside rmin rmax zmin zmax d)
                        (get_secondaries (E_all_leptons d) (lepton_codes d) (lepton_positions d)
                           (lepton_directions d))
                 else [])
      in (if inside_cylinder rmin rmax zmin zmax (xx d) (yy d) (zz d) \<or> fps \<noteq> [] then [d] else [])
         @ map (\<lambda>(k, p). secondary_record cspeed d (2 + int k) p) (enumerate 0 fps))"




section \<open>The random source\<close>

text \<open>
  Every call of a numpy random function is recorded in a trace, in the order of the calls;
  the values a call returns are read from \<open>random_source\<close> by the number of the call and
  the position in the returned array.  The draws of the interaction type and of the
  inelasticity are made by a module outside these sources and are recorded by name.
\<close>

datatype draw =
    Uniform real real nat
  | Randint nat nat
  | GetCcnc nat
  | GetInelasticity nat

type_synonym trace = "draw list"

record random_source =
  rs_uniform :: "nat \<Rightarrow> nat \<Rightarrow> real"
  rs_randint :: "nat \<Rightarrow> nat \<Rightarrow> nat"
  rs_ccnc :: "nat \<Rightarrow> string"
  rs_inelasticity :: "nat \<Rightarrow> real"

definition sbind ::
  "trace \<times> (py_error + 'a) \<Rightarrow> ('a \<Rightarrow> trace \<Rightarrow> trace \<times> (py_error + 'b)) \<Rightarrow> trace \<times> (py_error + 'b)" where
  "sbind m f = (case m of (tr, Inl e) \<Rightarrow> (tr, Inl e) | (tr, Inr v) \<Rightarrow> f v tr)"

text \<open>\<open>np.random.uniform(low, high, size)\<close>; a negative size raises.\<close>

definition np_uniform :: "random_source \<Rightarrow> real \<Rightarrow> real \<Rightarrow> int \<Rightarrow> trace \<Rightarrow> trace \<times> (py_error + real list)" where
  "np_uniform rnd low high sz tr =
     (if sz < 0 then (tr, Inl ValueError)
      else (tr @ [Uniform low high (nat sz)],
            Inr (map (rs_uniform rnd (length tr)) [0..<nat sz])))"

text \<open>\<open>np.random.randint(0, high, size)\<close>; an empty range raises, unless no value is
  asked for.\<close>

definition np_randint :: "random_source \<Rightarrow> nat \<Rightarrow> nat \<Rightarrow> trace \<Rightarrow> trace \<times> (py_error + nat list)" where
  "np_randint rnd high sz tr =
     (if high = 0 \<and> sz \<noteq> 0 then (tr, Inl ValueError)
      else (tr @ [Randint high sz],
            Inr (map (\<lambda>i. rs_randint rnd (length tr) i mod high) [0..<sz])))"

section \<open>generate_vertex_positions\<close>

text \<open>
  The fit of the tau track length; energies are in eV and lengths in m, the units of
  the run.
\<close>

definition get_tau_95_length :: "real \<Rightarrow> real" where
  "get_tau_95_length max_energy =
     (let coeffs = [680.016451, - 161.902120, 14.2383021, - 0.547388025, 0.00779239697];
          log_energy_eV = log 10 max_energy;
          log_length = sum_list (map (\<lambda>(ipow, coeff). coeff * log_energy_eV ^ ipow)
                                   (enumerate 0 coeffs))
      in 10 powr log_length)"

text \<open>\<open>int(x)\<close> of a float truncates towards zero.\<close>

definition py_int :: "real \<Rightarrow> int" where
  "py_int x = (if x \<ge> 0 then \<lfloor>x\<rfloor> else \<lceil>x\<rceil>)"

text \<open>
  What the cylinder branch has computed when it reaches the sampling (lines 388-435): the
  attributes, the number of events, the four local bounds, and \<open>full_rmax\<close>, a local
  variable that is assigned on one path only.
\<close>

record cylinder_resolution =
  c_attributes :: attributes
  c_n_events :: int
  c_rmin :: real
  c_rmax :: real
  c_zmin :: real
  c_zmax :: real
  c_full_rmax :: "real option"

definition store_cylinder ::
  "attributes \<Rightarrow> int \<Rightarrow> real \<Rightarrow> real \<Rightarrow> real \<Rightarrow> real \<Rightarrow> real option \<Rightarrow> cylinder_resolution" where
  "store_cylinder attrs n rmin rmax zmin zmax full_rmax =
     \<lparr> c_attributes = attrs(''rmin'' \<mapsto> rmin, ''rmax'' \<mapsto> rmax, ''zmin'' \<mapsto> zmin,
                              ''zmax'' \<mapsto> zmax,
                              ''volume'' \<mapsto> pi * (rmax ^ 2 - rmin ^ 2) * (zmax - zmin)),
       c_n_events = n, c_rmin = rmin, c_rmax = rmax, c_zmin = zmin, c_zmax = zmax,
       c_full_rmax = full_rmax \<rparr>"

text \<open>\<open>n_events\<close> and \<open>Emax\<close> stand for \<open>attributes['n_events']\<close> and \<open>attributes['Emax']\<close>,
  which every caller sets.  The message logged at line 424 reads \<open>attributes['zmax']\<close>.\<close>

definition resolve_cylinder ::
  "attributes \<Rightarrow> bool \<Rightarrow> int \<Rightarrow> real \<Rightarrow> attributes \<Rightarrow> py_error + cylinder_resolution" where
  "resolve_cylinder volume proposal n_events Emax attributes =
     ebind (lookup volume ''fiducial_rmax'') (\<lambda>fiducial_rmax.
     ebind (lookup volume ''fiducial_zmin'') (\<lambda>fiducial_zmin.
     ebind (lookup volume ''fiducial_zmax'') (\<lambda>fiducial_zmax.
       let fiducial_rmin = (case volume ''fiducial_rmin'' of Some v \<Rightarrow> v | None \<Rightarrow> 0);
           attributes = attributes(''fiducial_rmin'' \<mapsto> fiducial_rmin,
                                   ''fiducial_rmax'' \<mapsto> fiducial_rmax,
                                   ''fiducial_zmin'' \<mapsto> fiducial_zmin,
                                   ''fiducial_zmax'' \<mapsto> fiducial_zmax)
       in if proposal then
            (let tau_95_length = get_tau_95_length Emax;
                 rmin = (case volume ''full_rmin'' of Some v \<Rightarrow> v | None \<Rightarrow> fiducial_rmin / 3);
                 rmax = (case volume ''full_rmax'' of Some v \<Rightarrow> v | None \<Rightarrow> fiducial_rmax);
                 full_rmax = (case volume ''full_rmax'' of Some v \<Rightarrow> None
                              | None \<Rightarrow> Some (tau_95_length + fiducial_rmax));
                 zmax = (case volume ''full_zmax'' of Some v \<Rightarrow> v | None \<Rightarrow> fiducial_zmax / 3);
                 zmin = (case volume ''full_zmin'' of Some v \<Rightarrow> v
                         | None \<Rightarrow> fiducial_zmin - tau_95_length)
             in if fiducial_rmax = 0 \<or> fiducial_zmin = 0 then Inl ZeroDivisionError
                else
                 (let n_events =
                        n_events * py_int ((rmax / fiducial_rmax) ^ 2 * zmin / fiducial_zmin)
                  in ebind (lookup attributes ''zmax'') (\<lambda>logged_zmax.
                       Inr (store_cylinder attributes n_events rmin rmax zmin zmax full_rmax))))
          else Inr (store_cylinder attributes n_events fiducial_rmin fiducial_rmax
                      fiducial_zmin fiducial_zmax None))))"

text \<open>The sampling of the cylinder branch (lines 437-443).\<close>

definition sample_cylinder ::
  "random_source \<Rightarrow> cylinder_resolution \<Rightarrow> trace
     \<Rightarrow> trace \<times> (py_error + attributes \<times> real list \<times> real list \<times> real list)" where
  "sample_cylinder rnd c tr =
     (case c_full_rmax c of
        None \<Rightarrow> (tr, Inl (UnboundLocalError ''full_rmax''))
      | Some full_rmax \<Rightarrow>
          sbind (np_uniform rnd (c_rmin c ^ 2) (full_rmax ^ 2) (c_n_events c) tr) (\<lambda>u tr.
          sbind (np_uniform rnd 0 (2 * pi) (c_n_events c) tr) (\<lambda>phiphi tr.
          sbind (np_uniform rnd (c_zmin c) (c_zmax c) (c_n_events c) tr) (\<lambda>zs tr.
            (tr, Inr (c_attributes c,
                      map2 (\<lambda>a ph. sqrt a * cos ph) u phiphi,
                      map2 (\<lambda>a ph. sqrt a * sin ph) u phiphi,
                      zs))))))"

text \<open>The box branch (lines 444-497).\<close>

definition vertex_positions_box ::
  "random_source \<Rightarrow> attributes \<Rightarrow> bool \<Rightarrow> int \<Rightarrow> real \<Rightarrow> attributes \<Rightarrow> trace
     \<Rightarrow> trace \<times> (py_error + attributes \<times> real list \<times> real list \<times> real list)" where
  "vertex_positions_box rnd volume proposal n_events Emax attributes tr =
     (case
        ebind (lookup volume ''fiducial_xmax'') (\<lambda>fxmax.
        ebind (lookup volume ''fiducial_xmin'') (\<lambda>fxmin.
        ebind (lookup volume ''fiducial_ymax'') (\<lambda>fymax.
        ebind (lookup volume ''fiducial_ymin'') (\<lambda>fymin.
        ebind (lookup volume ''fiducial_zmin'') (\<lambda>fzmin.
        ebind (lookup volume ''fiducial_zmax'') (\<lambda>fzmax.
          let attributes = attributes(''fiducial_xmax'' \<mapsto> fxmax, ''fiducial_xmin'' \<mapsto> fxmin,
                                      ''fiducial_ymax'' \<mapsto> fymax, ''fiducial_ymin'' \<mapsto> fymin,
                                      ''fiducial_zmin'' \<mapsto> fzmin, ''fiducial_zmax'' \<mapsto> fzmax);
              volume_fiducial = (fxmax - fxmin) * (fymax - fymin) * (fzmax - fzmin)
          in if proposal then
               ebind
                 (if volume ''full_xmax'' = None then
                    (let tau_95_length = get_tau_95_length Emax
                     in Inr (fxmin - tau_95_length, fxmax + tau_95_length,
                             fymin - tau_95_length, fymax + tau_95_length,
                             fzmin - tau_95_length, fzmax))
                  else
                    ebind (lookup attributes ''full_xmin'') (\<lambda>xmin.
                    ebind (lookup attributes ''full_xmax'') (\<lambda>xmax.
                    ebind (lookup attributes ''full_ymin'') (\<lambda>ymin.
                    ebind (lookup attributes ''full_ymax'') (\<lambda>ymax.
                    ebind (lookup attributes ''full_zmin'') (\<lambda>zmin.
                    ebind (lookup attributes ''full_zmax'') (\<lambda>zmax.
                      Inr (xmin, xmax, ymin, ymax, zmin, zmax))))))))
                 (\<lambda>(xmin, xmax, ymin, ymax, zmin, zmax).
                    let volume_full = (xmax - xmin) * (ymax - ymin) * (zmax - zmin)
                    in if volume_fiducial = 0 then Inl ZeroDivisionError
                       else Inr (attributes, n_events * py_int (volume_full / volume_fiducial),
                                 xmin, xmax, ymin, ymax, zmin, zmax))
             else Inr (attributes, n_events, fxmin, fxmax, fymin, fymax, fzmin, fzmax)))))))
      of Inl e \<Rightarrow> (tr, Inl e)
       | Inr (attributes, n_events, xmin, xmax, ymin, ymax, zmin, zmax) \<Rightarrow>
          (let attributes = attributes(''xmin'' \<mapsto> xmin, ''xmax'' \<mapsto> xmax,
                                       ''ymin'' \<mapsto> ymin, ''ymax'' \<mapsto> ymax,
                                       ''zmin'' \<mapsto> zmin, ''zmax'' \<mapsto> zmax,
                                       ''volume'' \<mapsto> (xmax - xmin) * (ymax - ymin) * (zmax - zmin))
           in sbind (np_uniform rnd xmin xmax n_events tr) (\<lambda>xs tr.
              sbind (np_uniform rnd ymin ymax n_events tr) (\<lambda>ys tr.
              sbind (np_uniform rnd zmin zmax n_events tr) (\<lambda>zs tr.
                (tr, Inr (attributes, xs, ys, zs)))))))"

text \<open>With neither kind of volume the function returns \<open>None\<close>, which the callers fail
  to unpack.\<close>

definition generate_vertex_positions ::
  "random_source \<Rightarrow> attributes \<Rightarrow> bool \<Rightarrow> int \<Rightarrow> real \<Rightarrow> attributes \<Rightarrow> trace
     \<Rightarrow> trace \<times> (py_error + attributes \<times> real list \<times> real list \<times> real list)" where
  "generate_vertex_positions rnd volume proposal n_events Emax attributes tr =
     (if volume ''fiducial_rmax'' \<noteq> None then
        (case resolve_cylinder volume proposal n_events Emax attributes of
           Inl e \<Rightarrow> (tr, Inl e)
         | Inr c \<Rightarrow> sample_cylinder rnd c tr)
      else if volume ''fiducial_xmax'' \<noteq> None then
        vertex_positions_box rnd volume proposal n_events Emax attributes tr
      else (tr, Inl TypeError))"

section \<open>get_energies\<close>

text \<open>
  The numerical routines the sampling of energies rests on are arguments: Python's
  \<open>float\<close> of a string (\<open>None\<close> where it raises), and for a named flux the maximum of its
  cumulative sum on the grid between \<open>Emin\<close> and \<open>Emax\<close> and the interpolated inverse of
  that sum (lines 276-283).
\<close>

record numerics =
  parse_float :: "string \<Rightarrow> real option"
  flux_cum_max :: "string \<Rightarrow> real \<Rightarrow> real \<Rightarrow> real"
  flux_inv_cdf :: "string \<Rightarrow> real \<Rightarrow> real \<Rightarrow> real \<Rightarrow> real"

definition get_energy_from_flux ::
  "numerics \<Rightarrow> random_source \<Rightarrow> real \<Rightarrow> real \<Rightarrow> int \<Rightarrow> string \<Rightarrow> trace
     \<Rightarrow> trace \<times> (py_error + real list)" where
  "get_energy_from_flux num rnd Emin Emax n_events flux tr =
     sbind (np_uniform rnd 0 (flux_cum_max num flux Emin Emax) n_events tr) (\<lambda>r tr.
       (tr, Inr (map (flux_inv_cdf num flux Emin Emax) r)))"

definition get_energies ::
  "numerics \<Rightarrow> random_source \<Rightarrow> int \<Rightarrow> real \<Rightarrow> real \<Rightarrow> string \<Rightarrow> trace
     \<Rightarrow> trace \<times> (py_error + real list)" where
  "get_energies num rnd n_events Emin Emax spectrum_type tr =
     (if spectrum_type = ''log_uniform'' then
        sbind (np_uniform rnd (log 10 Emin) (log 10 Emax) n_events tr) (\<lambda>u tr.
          (tr, Inr (map (\<lambda>v. 10 powr v) u)))
      else if take 2 spectrum_type = ''E-'' then
        (case parse_float num (drop 1 spectrum_type) of
           None \<Rightarrow> (tr, Inl ValueError)
         | Some g \<Rightarrow>
            (let gamma = g + 1;
                 Nmin = Emin powr gamma;
                 Nmax = Emax powr gamma
             in sbind (np_uniform rnd Nmax Nmin n_events tr) (\<lambda>u tr.
                  (tr, Inr (map (\<lambda>N. exp (ln N / gamma)) u)))))
      else if spectrum_type = ''GZK-1'' then
        get_energy_from_flux num rnd Emin Emax n_events ''GZK-1'' tr
      else if spectrum_type = ''IceCube-nu-2017'' then
        get_energy_from_flux num rnd Emin Emax n_events ''IceCube-nu-2017'' tr
      else if spectrum_type = ''GZK-1+IceCube-nu-2017'' then
        get_energy_from_flux num rnd Emin Emax n_events ''GZK-1+IceCube-nu-2017'' tr
      else (tr, Inl NotImplementedError))"

text \<open>
  The spectrum names the docstring lists: four fixed names, and \<open>E-\<close> followed by a
  float.  Python reads that float from the name without its first character, the minus
  sign included.
\<close>

definition supported_spectrum :: "numerics \<Rightarrow> string \<Rightarrow> bool" where
  "supported_spectrum num s =
     (s = ''log_uniform'' \<or> (take 2 s = ''E-'' \<and> parse_float num (drop 1 s) \<noteq> None) \<or>
      s = ''GZK-1'' \<or> s = ''IceCube-nu-2017'' \<or> s = ''GZK-1+IceCube-nu-2017'')"

text \<open>The error of a name that is not supported: that of \<open>float\<close> for a name that starts
  with \<open>E-\<close>, the unknown-spectrum error of line 370 for any other.\<close>

definition unsupported_error :: "string \<Rightarrow> py_error" where
  "unsupported_error s = (if take 2 s = ''E-'' then ValueError else NotImplementedError)"

section \<open>generate_eventlist_cylinder\<close>

record generator_args =
  arg_filename :: string
  arg_n_events :: int
  arg_Emin :: real
  arg_Emax :: real
  arg_volume :: attributes
  arg_thetamin :: real
  arg_thetamax :: real
  arg_phimin :: real
  arg_phimax :: real
  arg_start_event_id :: int
  arg_flavor :: "int list"
  arg_n_events_per_file :: "int option"
  arg_spectrum :: string
  arg_deposited :: bool
  arg_proposal :: bool
  arg_start_file_id :: int

text \<open>The draws that come before the energies (lines 980-998): azimuths, zeniths, vertex
  positions and flavors.\<close>

definition sample_before_energies ::
  "random_source \<Rightarrow> generator_args \<Rightarrow> trace
     \<Rightarrow> trace \<times> (py_error + real list \<times> real list \<times> (attributes \<times> real list \<times> real list \<times> real list) \<times> int list)" where
  "sample_before_energies rnd a tr =
     sbind (np_uniform rnd (arg_phimin a) (arg_phimax a) (arg_n_events a) tr) (\<lambda>azs tr.
     sbind (np_uniform rnd (cos (arg_thetamax a)) (cos (arg_thetamin a)) (arg_n_events a) tr) (\<lambda>u tr.
     sbind (generate_vertex_positions rnd (arg_volume a) (arg_proposal a) (arg_n_events a)
              (arg_Emax a) Map.empty tr) (\<lambda>vertices tr.
     sbind (np_randint rnd (length (arg_flavor a)) (nat (arg_n_events a)) tr) (\<lambda>idx tr.
       (tr, Inr (azs, map arccos u, vertices, map (\<lambda>i. arg_flavor a ! i) idx))))))"

text \<open>The conversion of deposited energies (lines 1010-1015).  An entry \<open>None\<close> makes the
  product with the inelasticities at line 1018 fail.\<close>

fun deposited_energies :: "(real \<times> string \<times> int \<times> real) list \<Rightarrow> py_error + real list" where
  "deposited_energies [] = Inr []"
| "deposited_energies ((Edep, ccnc, flavor, y) # rest) =
     ebind (primary_energy_from_deposited Edep ccnc flavor y) (\<lambda>e.
     ebind (deposited_energies rest) (\<lambda>es.
       case e of None \<Rightarrow> Inl TypeError | Some v \<Rightarrow> Inr (v # es)))"

text \<open>
  All the sampling of a run (lines 980-1015), one \<open>event_sample\<close> for each event.  The
  vertex columns have \<open>n_events\<close> entries unless the proposal branch has changed their
  number; should they have fewer, the first read of a missing entry raises.
\<close>

definition eventlist_samples ::
  "numerics \<Rightarrow> random_source \<Rightarrow> generator_args \<Rightarrow> trace
     \<Rightarrow> trace \<times> (py_error + attributes \<times> event_sample list)" where
  "eventlist_samples num rnd a tr =
     sbind (sample_before_energies rnd a tr) (\<lambda>(azs, zens, (attributes, xs, ys, zs), flvs) tr.
     sbind (get_energies num rnd (arg_n_events a) (arg_Emin a) (arg_Emax a) (arg_spectrum a) tr)
       (\<lambda>es tr.
          let n = nat (arg_n_events a);
              tr = tr @ [GetCcnc n, GetInelasticity n];
              ccnc = map (rs_ccnc rnd) [0..<n];
              inel = map (rs_inelasticity rnd) [0..<n]
          in (tr,
              ebind (if arg_deposited a
                     then deposited_energies (zip es (zip ccnc (zip flvs inel)))
                     else Inr es) (\<lambda>es.
                if length xs < n then Inl IndexError
                else Inr (attributes,
                          map (\<lambda>i. \<lparr> s_azimuth = azs ! i, s_zenith = zens ! i,
                                      s_x = xs ! i, s_y = ys ! i, s_z = zs ! i,
                                      s_flavor = flvs ! i, s_energy = es ! i,
                                      s_ccnc = ccnc ! i, s_inelasticity = inel ! i \<rparr>)
                              [0..<n])))))"

text \<open>
  From the table with its electromagnetic showers to the table that is written (lines
  1038-1144): with \<open>proposal\<close> the loop over the events fills the fiducial table (and the
  timing message after it reads the loop variable \<open>iE\<close>); without, the table is taken
  as it is.  Then every row gets its shower id.
\<close>

definition fiducial_table ::
  "attributes \<Rightarrow> real \<Rightarrow> (pyfloat \<Rightarrow> int \<Rightarrow> vec3 \<Rightarrow> vec3 \<Rightarrow> product list) \<Rightarrow> bool \<Rightarrow> row list
     \<Rightarrow> py_error + (row \<times> nat) list" where
  "fiducial_table attributes cspeed get_secondaries proposal data_sets =
     ebind (if proposal then
              (if data_sets = [] then Inl (UnboundLocalError ''iE'')
               else events_loop attributes cspeed get_secondaries [] data_sets)
            else Inr data_sets) (\<lambda>data_sets_fiducial.
       Inr (zip data_sets_fiducial [0..<length data_sets_fiducial]))"

text \<open>Lines 1038-1146: the table of \<open>fiducial_table\<close>, handed to the writer.\<close>

definition write_fiducial_table ::
  "attributes \<Rightarrow> real \<Rightarrow> (pyfloat \<Rightarrow> int \<Rightarrow> vec3 \<Rightarrow> vec3 \<Rightarrow> product list) \<Rightarrow> generator_args
     \<Rightarrow> row list \<Rightarrow> py_error + (row \<times> nat) shard list" where
  "write_fiducial_table attributes cspeed get_secondaries a data_sets =
     ebind (fiducial_table attributes cspeed get_secondaries (arg_proposal a) data_sets) (\<lambda>tbl.
       write_events_to_hdf5 (arg_filename a) (\<lambda>r. event_group_ids (fst r)) tbl
         \<lparr> attr_n_events = arg_n_events a, attr_start_event_id = Some (arg_start_event_id a) \<rparr>
         (arg_n_events_per_file a) (arg_start_file_id a))"

definition generate_eventlist_cylinder ::
  "numerics \<Rightarrow> random_source \<Rightarrow> real \<Rightarrow> (pyfloat \<Rightarrow> int \<Rightarrow> vec3 \<Rightarrow> vec3 \<Rightarrow> product list)
     \<Rightarrow> generator_args \<Rightarrow> trace \<Rightarrow> trace \<times> (py_error + (row \<times> nat) shard list)" where
  "generate_eventlist_cylinder num rnd cspeed get_secondaries a tr =
     sbind (eventlist_samples num rnd a tr) (\<lambda>(attributes, samples) tr.
       (tr, write_fiducial_table attributes cspeed get_secondaries a
              (add_em_showers (baseline_table (arg_start_event_id a) samples))))"

text \<open>Concrete inputs for the runs evaluated below.\<close>

definition example_cylinder :: attributes where
  "example_cylinder =
     [''fiducial_rmin'' \<mapsto> 0, ''fiducial_rmax'' \<mapsto> 1000,
      ''fiducial_zmin'' \<mapsto> - 1000, ''fiducial_zmax'' \<mapsto> 0]"




definition example_box :: attributes where
  "example_box =
     [''fiducial_xmin'' \<mapsto> - 1000, ''fiducial_xmax'' \<mapsto> 1000,
      ''fiducial_ymin'' \<mapsto> - 1000, ''fiducial_ymax'' \<mapsto> 1000,
      ''fiducial_zmin'' \<mapsto> - 2000, ''fiducial_zmax'' \<mapsto> 0]"

definition example_random_source :: random_source where
  "example_random_source =
     \<lparr> rs_uniform = (\<lambda>k i. 0), rs_randint = (\<lambda>k i. i), rs_ccnc = (\<lambda>i. ''cc''),
       rs_inelasticity = (\<lambda>i. 1 / 2) \<rparr>"

definition example_numerics :: numerics where
  "example_numerics =
     \<lparr> parse_float = (\<lambda>s. if s = ''-2'' then Some (- 2) else None),
       flux_cum_max = (\<lambda>f lo hi. 1), flux_inv_cdf = (\<lambda>f lo hi r. lo) \<rparr>"

definition example_box_args :: "string \<Rightarrow> generator_args" where
  "example_box_args spectrum =
     \<lparr> arg_filename = ''events.hdf5'', arg_n_events = 2, arg_Emin = 1, arg_Emax = 10,
       arg_volume = example_box, arg_thetamin = 0, arg_thetamax = pi,
       arg_phimin = 0, arg_phimax = 2 * pi, arg_start_event_id = 1,
       arg_flavor = [12, 14], arg_n_events_per_file = None,
       arg_spectrum = spectrum, arg_deposited = False, arg_proposal = False,
       arg_start_file_id = 0 \<rparr>"

section \<open>generate_surface_muons (lines 715-821)\<close>













section \<open>The shard writer: event counts and file names\<close>

lemma write_loop_Cons:
  assumes "write_loop filename key tbl n s K sf i prev st = Inr (sh # rest)"
  shows "evt_ids_of_file (map key tbl) K i \<noteq> [] \<and>
         (\<exists>stop. stop_index_of (map key tbl) (last (evt_ids_of_file (map key tbl) K i)) = Inr stop \<and>
            shard_filename sh = filename2 filename i K n sf \<and>
            shard_n_events sh = n_events_this_file i (evt_ids_of_file (map key tbl) K (i + 1)) n s
                 (last (evt_ids_of_file (map key tbl) K i)) prev \<and>
            shard_start_index sh = st \<and> shard_stop_index sh = stop \<and>
            shard_rows sh = take (stop - st) (drop st tbl) \<and>
            (if last (evt_ids_of_file (map key tbl) K i) = n then rest = []
             else write_loop filename key tbl n s K sf (i + 1)
                    (last (evt_ids_of_file (map key tbl) K i)) stop = Inr rest))"
  using assms
  by (subst (asm) write_loop.simps) (auto simp: Let_def split: if_splits sum.splits)








lemma write_loop_names:
  "write_loop filename key tbl n s K sf i prev st = Inr shards \<Longrightarrow> j < length shards \<Longrightarrow>
   shard_filename (shards ! j) = filename2 filename (i + j) K n sf"
proof (induction shards arbitrary: i prev st j)
  case Nil
  then show ?case by simp
next
  case (Cons sh rest)
  note c = write_loop_Cons [OF Cons.prems(1)]
  show ?case
  proof (cases j)
    case 0
    with c show ?thesis by auto
  next
    case (Suc j')
    with Cons.prems(2) have j': "j' < length rest" by simp
    then have "rest \<noteq> []" by auto
    with c obtain stop where
      rec: "write_loop filename key tbl n s K sf (i + 1) (last (evt_ids_of_file (map key tbl) K i)) stop = Inr rest"
      by (auto split: if_splits)
    from Cons.IH [OF rec j'] Suc show ?thesis by simp
  qed
qed









text \<open>
  C8, as stated, fails: the suffix does not depend on how many shards are produced.  A
  table with a single event group, 100 simulated events and 40 events per file gives one
  file, and its name carries the suffix.
\<close>

theorem C8_single_shard_suffixed:
  "\<exists>sh. write_events_to_hdf5 ''events.hdf5'' (\<lambda>x. x) [1 :: int]
           \<lparr>attr_n_events = 100, attr_start_event_id = Some 1\<rparr> (Some 40) 0 = Inr [sh] \<and>
        shard_filename sh = ''events.hdf5.part0000'' \<and>
        shard_filename sh \<noteq> ''events.hdf5''"
proof -
  have run: "map_sum id (map shard_filename)
      (write_events_to_hdf5 ''events.hdf5'' (\<lambda>x. x) [1 :: int]
           \<lparr>attr_n_events = 100, attr_start_event_id = Some 1\<rparr> (Some 40) 0)
      = Inr [''events.hdf5.part0000'']"
    by code_simp
  then obtain shards where
    w: "write_events_to_hdf5 ''events.hdf5'' (\<lambda>x. x) [1 :: int]
           \<lparr>attr_n_events = 100, attr_start_event_id = Some 1\<rparr> (Some 40) 0 = Inr shards"
    and m: "map shard_filename shards = [''events.hdf5.part0000'']"
    by (cases "write_events_to_hdf5 ''events.hdf5'' (\<lambda>x. x) [1 :: int]
           \<lparr>attr_n_events = 100, attr_start_event_id = Some 1\<rparr> (Some 40) 0") auto
  from m obtain sh where "shards = [sh]" "shard_filename sh = ''events.hdf5.part0000''"
    by (auto simp: map_eq_Cons_conv)
  with w show ?thesis by auto
qed

text \<open>
  C8, amended.  The name of shard \<open>i\<close> is the base name unchanged exactly when \<open>i = 0\<close> and
  the number of events per file (the total, when none is given) is not below the total
  number of simulated events; in every other case it is the base name followed by
  \<open>.part\<close> and \<open>start_file_id + i\<close>, zero-padded to four characters.
\<close>

theorem C8_shard_names:
  assumes "write_events_to_hdf5 filename key data_sets attributes n_events_per_file start_file_id
             = Inr shards"
    and "i < length shards"
  shows "shard_filename (shards ! i) =
           (if i = 0 \<and> attr_n_events attributes
                 \<le> (case n_events_per_file of None \<Rightarrow> attr_n_events attributes | Some k \<Rightarrow> k)
            then filename
            else filename @ ''.part'' @ format_04 (start_file_id + int i))"
proof -
  let ?n = "attr_n_events attributes"
  let ?s = "case attr_start_event_id attributes of None \<Rightarrow> 0 | Some s \<Rightarrow> s"
  let ?K = "case n_events_per_file of None \<Rightarrow> ?n | Some k \<Rightarrow> k"
  from assms(1) have w: "write_loop filename key data_sets ?n ?s ?K start_file_id 0 0 0 = Inr shards"
    by (cases data_sets) (auto simp: write_events_to_hdf5_def Let_def)
  from write_loop_names [OF w assms(2)]
  have "shard_filename (shards ! i) = filename2 filename i ?K ?n start_file_id" by simp
  then show ?thesis
    by (auto simp: filename2_def add.commute)
qed

theorem C8_shard_names_witness:
  "\<exists>shards. write_events_to_hdf5 ''events.hdf5'' (\<lambda>x. x) [1, 1, 2, 3, 3, 4, 5 :: int]
        \<lparr>attr_n_events = 5, attr_start_event_id = Some 1\<rparr> (Some 2) 7 = Inr shards \<and>
     1 < length shards \<and> shard_filename (shards ! 1) = ''events.hdf5.part0008''"
proof -
  have run: "map_sum id length
      (write_events_to_hdf5 ''events.hdf5'' (\<lambda>x. x) [1, 1, 2, 3, 3, 4, 5 :: int]
        \<lparr>attr_n_events = 5, attr_start_event_id = Some 1\<rparr> (Some 2) 7) = Inr 3"
    by code_simp
  then obtain shards where
    w: "write_events_to_hdf5 ''events.hdf5'' (\<lambda>x. x) [1, 1, 2, 3, 3, 4, 5 :: int]
        \<lparr>attr_n_events = 5, attr_start_event_id = Some 1\<rparr> (Some 2) 7 = Inr shards"
    and l: "length shards = 3"
    by (cases "write_events_to_hdf5 ''events.hdf5'' (\<lambda>x. x) [1, 1, 2, 3, 3, 4, 5 :: int]
        \<lparr>attr_n_events = 5, attr_start_event_id = Some 1\<rparr> (Some 2) 7") auto
  from l have i: "1 < length shards" by simp
  have f: "format_04 8 = ''0008''" by code_simp
  from C8_shard_names [OF w i] f
  have "shard_filename (shards ! 1) = ''events.hdf5.part0008''" by simp
  with w i show ?thesis by blast
qed

section \<open>Deposited energy\<close>

text \<open>
  C10. \<open>primary_energy_from_deposited\<close> returns what \<open>Edep / inelasticity\<close> evaluates to
  for a neutral current and for a charged current of a muon or tau flavor, \<open>Edep\<close>
  itself for a charged current of an electron flavor, and \<open>None\<close>, without an error,
  for every other input.
\<close>

theorem C10_primary_energy_cases:
  "(ccnc = ''nc'' \<or> (ccnc = ''cc'' \<and> (\<bar>flavor\<bar> = 14 \<or> \<bar>flavor\<bar> = 16)) \<longrightarrow>
      primary_energy_from_deposited Edep ccnc flavor y = map_sum id Some (py_truediv Edep y)) \<and>
   (y \<noteq> 0 \<longrightarrow> map_sum id Some (py_truediv Edep y) = Inr (Some (Edep / y))) \<and>
   (ccnc = ''cc'' \<and> \<bar>flavor\<bar> = 12 \<longrightarrow>
      primary_energy_from_deposited Edep ccnc flavor y = Inr (Some Edep)) \<and>
   (ccnc \<noteq> ''nc'' \<and> (ccnc \<noteq> ''cc'' \<or> (\<bar>flavor\<bar> \<noteq> 12 \<and> \<bar>flavor\<bar> \<noteq> 14 \<and> \<bar>flavor\<bar> \<noteq> 16)) \<longrightarrow>
      primary_energy_from_deposited Edep ccnc flavor y = Inr None)"
  by (auto simp: primary_energy_from_deposited_def py_truediv_def)

theorem C10_primary_energy_cases_witness:
  "primary_energy_from_deposited 6 ''nc'' 12 2 = Inr (Some 3) \<and>
   primary_energy_from_deposited 6 ''cc'' (- 16) 2 = Inr (Some 3) \<and>
   primary_energy_from_deposited 6 ''cc'' (- 12) 2 = Inr (Some 6) \<and>
   primary_energy_from_deposited 6 ''cc'' 13 2 = Inr None \<and>
   primary_energy_from_deposited 6 ''had'' 14 2 = Inr None"
proof -
  have d: "map_sum id Some (py_truediv 6 2) = Inr (Some (3::real))"
    using C10_primary_energy_cases [of "''nc''" 12 6 2] by simp
  have "primary_energy_from_deposited 6 ''nc'' 12 2 = Inr (Some 3)"
    using C10_primary_energy_cases [of "''nc''" 12 6 2] d by simp
  moreover have "primary_energy_from_deposited 6 ''cc'' (- 16) 2 = Inr (Some 3)"
    using C10_primary_energy_cases [of "''cc''" "- 16" 6 2] d by simp
  moreover have "primary_energy_from_deposited 6 ''cc'' (- 12) 2 = Inr (Some 6)"
    using C10_primary_energy_cases [of "''cc''" "- 12" 6 2] by simp
  moreover have "primary_energy_from_deposited 6 ''cc'' 13 2 = Inr None"
    using C10_primary_energy_cases [of "''cc''" 13 6 2] by simp
  moreover have "primary_energy_from_deposited 6 ''had'' 14 2 = Inr None"
    using C10_primary_energy_cases [of "''had''" 14 6 2] by simp
  ultimately show ?thesis by blast
qed

section \<open>Ray and box\<close>

text \<open>
  C6 fails on the code: \<open>tmax\<close> of the x slab is scaled by \<open>invdir[1]\<close>, not by
  \<open>invdir[0]\<close>.  For the box from (0,0,0) to (2,2,2) and the ray from its centre (1,1,1)
  in direction (1,-1,1) the function returns false, though the origin of the ray
  (\<open>t = 0\<close>) is a point of the box.
\<close>

theorem C6_box_ray_misses_own_origin:
  "intersection_box_ray ((0, 0, 0), (2, 2, 2)) ((1, 1, 1), (1, - 1, 1)) = False \<and>
   (0::real) \<le> 0 \<and>
   in_box ((0, 0, 0), (2, 2, 2)) (ray_point ((1, 1, 1), (1, - 1, 1)) 0)"
  by (simp add: intersection_box_ray_def in_box_def ray_point_def corner_def vx_def vy_def
      vz_def Let_def)

section \<open>Splitting of electron charged-current rows\<close>

lemma masked_indices_Cons:
  "filter (\<lambda>i. P ((d # ds) ! i)) [0..<length (d # ds)] =
     (if P d then [0] else []) @ map Suc (filter (\<lambda>i. P (ds ! i)) [0..<length ds])"
proof -
  have "[0..<length (d # ds)] = 0 # map Suc [0..<length ds]"
    by (simp add: upt_conv_Cons map_Suc_upt del: upt_Suc)
  then show ?thesis
    by (simp add: filter_map comp_def)
qed

lemma insert_em_loop_split:
  "length P = m + k \<Longrightarrow>
   insert_em_loop (P @ ds) k (map (\<lambda>i. i + m) (filter (\<lambda>i. em_shower_mask (ds ! i)) [0..<length ds]))
     = P @ concat (map split_row ds)"
proof (induction ds arbitrary: P m k)
  case Nil
  then show ?case by simp
next
  case (Cons d ds)
  let ?rest = "map (\<lambda>i. i + Suc m) (filter (\<lambda>i. em_shower_mask (ds ! i)) [0..<length ds])"
  have idx: "map (\<lambda>i. i + m) (filter (\<lambda>i. em_shower_mask ((d # ds) ! i)) [0..<length (d # ds)])
      = (if em_shower_mask d then [m] else []) @ ?rest"
    by (simp only: masked_indices_Cons) (simp add: comp_def)
  have len: "length P = m + k" by (rule Cons.prems)
  show ?case
  proof (cases "em_shower_mask d")
    case False
    have "insert_em_loop ((P @ [d]) @ ds) k ?rest = (P @ [d]) @ concat (map split_row ds)"
      using len by (intro Cons.IH) simp
    moreover have "split_row d = [d]" using False by (simp add: split_row_def)
    ultimately show ?thesis
      unfolding idx using False by simp
  next
    case True
    let ?e = "d\<lparr> shower_energies := fl_lift (\<lambda>y. (1 - y) * energies d) (inelasticity d),
                  shower_type := ''em'' \<rparr>"
    have ih: "insert_em_loop ((P @ [d, ?e]) @ ds) (Suc k) ?rest
          = (P @ [d, ?e]) @ concat (map split_row ds)"
      using len by (intro Cons.IH) simp
    have sr: "split_row d = [d, ?e]" using True by (simp add: split_row_def)
    have a: "(P @ d # ds) ! (m + k) = d" using len by (simp add: nth_append)
    have b: "list_insert (Suc (m + k)) d (P @ d # ds) = P @ d # d # ds"
      using len by (simp add: list_insert_def)
    have c: "(P @ d # d # ds) ! Suc (m + k) = d"
      using len by (simp add: nth_append)
    have e: "(P @ d # d # ds)[Suc (m + k) := ?e] = P @ d # ?e # ds"
      using len by (simp add: list_update_append)
    have step: "insert_em_loop (P @ d # ds) k (m # ?rest) = insert_em_loop (P @ d # ?e # ds) (Suc k) ?rest"
      by (simp add: Let_def a b c e)
    show ?thesis
      unfolding idx using True ih sr step by simp
  qed
qed

lemma add_em_showers_split: "add_em_showers ds = concat (map split_row ds)"
  using insert_em_loop_split [of "[]" 0 0 ds] by (simp add: add_em_showers_def)

text \<open>
  C5. Splitting replaces every electron charged-current row of the table by two adjacent
  rows and keeps every other row, in order.  The first of the two is the row itself, which
  in the baseline table has the shower class hadronic and the shower energy
  inelasticity * energy; the second differs from it only in the shower class,
  electromagnetic, and the shower energy, (1 - inelasticity) * energy.
\<close>

theorem C5_electron_cc_split:
  "add_em_showers data_sets =
     concat (map (\<lambda>d. if interaction_type d = ''cc'' \<and> \<bar>flavors d\<bar> = 12
                       then [d, d\<lparr> shower_energies :=
                                      fl_lift (\<lambda>y. (1 - y) * energies d) (inelasticity d),
                                    shower_type := ''em'' \<rparr>]
                       else [d]) data_sets) \<and>
   shower_type (baseline_row start_event_id i s) = ''had'' \<and>
   shower_energies (baseline_row start_event_id i s) = Fl (s_inelasticity s * s_energy s) \<and>
   fl_lift (\<lambda>y. (1 - y) * energies (baseline_row start_event_id i s))
       (inelasticity (baseline_row start_event_id i s))
     = Fl ((1 - s_inelasticity s) * s_energy s)"
proof -
  have "split_row = (\<lambda>d. if interaction_type d = ''cc'' \<and> \<bar>flavors d\<bar> = 12
                       then [d, d\<lparr> shower_energies :=
                                      fl_lift (\<lambda>y. (1 - y) * energies d) (inelasticity d),
                                    shower_type := ''em'' \<rparr>]
                       else [d])"
    by (rule ext) (simp add: split_row_def em_shower_mask_def)
  then show ?thesis
    by (simp add: add_em_showers_split baseline_row_def fl_lift_def mult.commute)
qed

section \<open>Rows appended for the products of a lepton\<close>

lemma in_fiducial_cylinder_eq:
  "cylinder_attributes attrs rmin rmax zmin zmax \<Longrightarrow>
   in_fiducial_cylinder attrs r z = Inr (rmin \<le> r \<and> r \<le> rmax \<and> zmin \<le> z \<and> z \<le> zmax)"
  by (simp add: cylinder_attributes_def in_fiducial_cylinder_def ebind_def lookup_def)

lemma process_product_inside:
  assumes "cylinder_attributes attrs rmin rmax zmin zmax"
    and "product_inside rmin rmax zmin zmax d prd"
  shows "process_product attrs cspeed d (fid, fi, n) prd =
           Inr (fid @ (if \<not> fi then [d, secondary_record cspeed d n prd]
                       else [secondary_record cspeed d n prd]), True, n + 1)"
  using assms(2)
  by (simp add: process_product_def get_product_position_time_def Let_def
      in_fiducial_cylinder_eq [OF assms(1)] ebind_def product_inside_def inside_cylinder_def
      set_last_def secondary_record_def numeral_2_eq_2 butlast_append)

lemma process_product_outside:
  assumes "cylinder_attributes attrs rmin rmax zmin zmax"
    and "\<not> product_inside rmin rmax zmin zmax d prd"
  shows "process_product attrs cspeed d st prd = Inr st"
  using assms(2)
  by (cases st) (auto simp add: process_product_def get_product_position_time_def Let_def
      in_fiducial_cylinder_eq [OF assms(1)] ebind_def product_inside_def inside_cylinder_def)

lemma products_loop_closed:
  assumes "cylinder_attributes attrs rmin rmax zmin zmax"
  shows "products_loop attrs cspeed d (fid, fi, n) prods =
     (let fps = filter (product_inside rmin rmax zmin zmax d) prods
      in Inr (fid @ (if \<not> fi \<and> fps \<noteq> [] then [d] else [])
                  @ map (\<lambda>(k, p). secondary_record cspeed d (n + int k) p) (enumerate 0 fps),
              fi \<or> fps \<noteq> [], n + int (length fps)))"
proof (induction prods arbitrary: fid fi n)
  case Nil
  then show ?case by simp
next
  case (Cons p ps)
  show ?case
  proof (cases "product_inside rmin rmax zmin zmax d p")
    case True
    have sh: "map (\<lambda>(k, p). secondary_record cspeed d (n + int k) p) (enumerate (Suc 0) xs)
        = map (\<lambda>(k, p). secondary_record cspeed d (n + 1 + int k) p) (enumerate 0 xs)" for xs
      by (simp add: enumerate_Suc_eq split_def comp_def add.assoc)
    from True show ?thesis
      by (simp add: process_product_inside [OF assms True] Cons.IH ebind_def Let_def sh)
  next
    case False
    then show ?thesis
      by (simp add: process_product_outside [OF assms False] Cons.IH ebind_def Let_def)
  qed
qed

lemma process_event_closed:
  assumes cyl: "cylinder_attributes attrs rmin rmax zmin zmax" and lep: "mask_leptons d"
  shows "process_event attrs cspeed get_secondaries fid d =
     (let fps = filter (product_inside rmin rmax zmin zmax d)
                  (get_secondaries (E_all_leptons d) (lepton_codes d) (lepton_positions d)
                     (lepton_directions d))
      in Inr (fid @ (if inside_cylinder rmin rmax zmin zmax (xx d) (yy d) (zz d) \<or> fps \<noteq> []
                     then [d] else [])
                  @ map (\<lambda>(k, p). secondary_record cspeed d (2 + int k) p) (enumerate 0 fps)))"
proof -
  have g: "get_intersection_volume_neutrino attrs v dir = Inr True" for v dir
    using cyl by (auto simp: get_intersection_volume_neutrino_def cylinder_attributes_def)
  show ?thesis
    using lep
    by (simp add: process_event_def in_fiducial_cylinder_eq [OF cyl] g ebind_def Let_def
        products_loop_closed [OF cyl] inside_cylinder_def)
qed
lemma process_event_rows:
  assumes cyl: "cylinder_attributes attrs rmin rmax zmin zmax"
  shows "process_event attrs cspeed get_secondaries fid d =
           Inr (fid @ event_rows cspeed get_secondaries rmin rmax zmin zmax d)"
proof (cases "mask_leptons d")
  case True
  from process_event_closed [OF cyl True] True show ?thesis
    by (simp add: event_rows_def Let_def)
next
  case False
  then show ?thesis
    by (simp add: process_event_def in_fiducial_cylinder_eq [OF cyl] ebind_def Let_def
        event_rows_def inside_cylinder_def)
qed

lemma events_loop_closed:
  assumes cyl: "cylinder_attributes attrs rmin rmax zmin zmax"
  shows "events_loop attrs cspeed get_secondaries fid data_sets =
           Inr (fid @ concat (map (event_rows cspeed get_secondaries rmin rmax zmin zmax) data_sets))"
  by (induction data_sets arbitrary: fid)
     (simp_all add: process_event_rows [OF cyl] ebind_def)

lemma fiducial_table_proposal:
  assumes cyl: "cylinder_attributes attrs rmin rmax zmin zmax" and ne: "data_sets \<noteq> []"
  shows "fiducial_table attrs cspeed get_secondaries True data_sets =
           Inr (zip (concat (map (event_rows cspeed get_secondaries rmin rmax zmin zmax) data_sets))
                  [0..<length (concat (map (event_rows cspeed get_secondaries rmin rmax zmin zmax)
                                         data_sets))])"
  using ne by (simp add: fiducial_table_def events_loop_closed [OF cyl, of _ _ "[]"] ebind_def)

lemma write_fiducial_table_proposal:
  assumes cyl: "cylinder_attributes attrs rmin rmax zmin zmax" and ne: "data_sets \<noteq> []"
    and p: "arg_proposal a"
  shows "write_fiducial_table attrs cspeed get_secondaries a data_sets =
           write_events_to_hdf5 (arg_filename a) (\<lambda>r. event_group_ids (fst r))
             (zip (concat (map (event_rows cspeed get_secondaries rmin rmax zmin zmax) data_sets))
                [0..<length (concat (map (event_rows cspeed get_secondaries rmin rmax zmin zmax)
                                       data_sets))])
             \<lparr> attr_n_events = arg_n_events a, attr_start_event_id = Some (arg_start_event_id a) \<rparr>
             (arg_n_events_per_file a) (arg_start_file_id a)"
  using p by (simp add: write_fiducial_table_def fiducial_table_proposal [OF cyl ne] ebind_def)







section \<open>Vertex generation in a cylinder\<close>

text \<open>
  C2 fails on the code.  With proposal and no \<open>full_rmax\<close> the inflated radius is stored
  in the local variable \<open>full_rmax\<close>; \<open>rmax\<close> stays the fiducial radius, is used in the
  factor of the number of events and is written to the attributes.  For a fiducial
  cylinder of radius 1000 and depth 1000 and attributes without the key \<open>zmax\<close> (as the
  generators pass them) the function raises at the message of line 424; with that key
  set it resolves \<open>rmax\<close> to 1000, the fiducial radius.
\<close>

theorem C2_rmax_not_inflated:
  "resolve_cylinder example_cylinder True 10 (10 ^ 18) Map.empty = Inl (KeyError ''zmax'') \<and>
   (\<exists>c. resolve_cylinder example_cylinder True 10 (10 ^ 18) [''zmax'' \<mapsto> 0] = Inr c \<and>
        c_attributes c ''rmax'' = Some 1000 \<and>
        c_attributes c ''fiducial_rmax'' = Some 1000 \<and>
        c_n_events c =
          10 * py_int ((1000 / 1000) ^ 2 * (- 1000 - get_tau_95_length (10 ^ 18)) / (- 1000)) \<and>
        c_full_rmax c = Some (get_tau_95_length (10 ^ 18) + 1000))"
  by (simp add: resolve_cylinder_def example_cylinder_def ebind_def lookup_def Let_def
      store_cylinder_def)

section \<open>An empty fiducial table\<close>
















section \<open>An unknown spectrum\<close>

lemma ex_before:
  "\<exists>v. sample_before_energies example_random_source (example_box_args s) [] =
     ([Uniform 0 (2 * pi) 2, Uniform (- 1) 1 2, Uniform (- 1000) 1000 2,
       Uniform (- 1000) 1000 2, Uniform (- 2000) 0 2, Randint 2 2], Inr v)"
  by (simp add: sample_before_energies_def example_box_args_def sbind_def np_uniform_def
      np_randint_def generate_vertex_positions_def vertex_positions_box_def example_box_def
      ebind_def lookup_def Let_def)

lemma get_energies_unsupported:
  "\<not> supported_spectrum num s \<Longrightarrow>
     get_energies num rnd n Emin Emax s tr = (tr, Inl (unsupported_error s))"
  by (auto simp: get_energies_def supported_spectrum_def unsupported_error_def)

lemma np_uniform_trace:
  "np_uniform rnd lo hi n tr = (tr', Inr v) \<Longrightarrow> tr' = tr @ [Uniform lo hi (nat n)]"
  by (auto simp: np_uniform_def split: if_splits)

lemma np_randint_trace:
  "np_randint rnd h n tr = (tr', Inr v) \<Longrightarrow> tr' = tr @ [Randint h n]"
  by (auto simp: np_randint_def split: if_splits)

lemma sbind_Inr:
  "sbind m f = (tr', Inr v) \<Longrightarrow> \<exists>tr1 w. m = (tr1, Inr w) \<and> f w tr1 = (tr', Inr v)"
  by (auto simp: sbind_def split: prod.splits sum.splits)

lemma three_uniform_trace:
  assumes "sbind (np_uniform rnd a1 b1 n tr) (\<lambda>u tr.
           sbind (np_uniform rnd a2 b2 n tr) (\<lambda>p tr.
           sbind (np_uniform rnd a3 b3 n tr) (\<lambda>z tr. (tr, Inr (g u p z))))) = (tr', Inr v)"
  shows "\<exists>vd. tr' = tr @ vd \<and> length vd = 3"
proof -
  from sbind_Inr [OF assms] obtain t1 u where
    1: "np_uniform rnd a1 b1 n tr = (t1, Inr u)" and
    r1: "sbind (np_uniform rnd a2 b2 n t1) (\<lambda>p tr.
           sbind (np_uniform rnd a3 b3 n tr) (\<lambda>z tr. (tr, Inr (g u p z)))) = (tr', Inr v)"
    by blast
  from sbind_Inr [OF r1] obtain t2 p where
    2: "np_uniform rnd a2 b2 n t1 = (t2, Inr p)" and
    r2: "sbind (np_uniform rnd a3 b3 n t2) (\<lambda>z tr. (tr, Inr (g u p z))) = (tr', Inr v)"
    by blast
  from sbind_Inr [OF r2] obtain t3 z where
    3: "np_uniform rnd a3 b3 n t2 = (t3, Inr z)" and r3: "(t3, Inr (g u p z)) = (tr', Inr v)"
    by blast
  from np_uniform_trace [OF 1] np_uniform_trace [OF 2] np_uniform_trace [OF 3] r3
  have "tr' = tr @ [Uniform a1 b1 (nat n), Uniform a2 b2 (nat n), Uniform a3 b3 (nat n)]"
    by simp
  then show ?thesis by simp
qed

lemma sample_cylinder_trace:
  "sample_cylinder rnd c tr = (tr', Inr v) \<Longrightarrow> \<exists>vd. tr' = tr @ vd \<and> length vd = 3"
  unfolding sample_cylinder_def
  by (cases "c_full_rmax c") (auto dest: three_uniform_trace)

lemma vertex_positions_box_trace:
  "vertex_positions_box rnd vol p n E attrs tr = (tr', Inr v) \<Longrightarrow> \<exists>vd. tr' = tr @ vd \<and> length vd = 3"
  unfolding vertex_positions_box_def Let_def
  by (auto split: sum.splits prod.splits dest: three_uniform_trace)

lemma generate_vertex_positions_trace:
  "generate_vertex_positions rnd vol p n E attrs tr = (tr', Inr v) \<Longrightarrow>
     \<exists>vd. tr' = tr @ vd \<and> length vd = 3"
  unfolding generate_vertex_positions_def
  by (auto split: if_splits sum.splits dest: sample_cylinder_trace vertex_positions_box_trace)

lemma sample_before_energies_trace:
  assumes "sample_before_energies rnd a tr = (tr', Inr v)"
  shows "\<exists>vd. length vd = 3 \<and>
           tr' = tr @ [Uniform (arg_phimin a) (arg_phimax a) (nat (arg_n_events a)),
                       Uniform (cos (arg_thetamax a)) (cos (arg_thetamin a)) (nat (arg_n_events a))]
                    @ vd @ [Randint (length (arg_flavor a)) (nat (arg_n_events a))]"
proof -
  from sbind_Inr [OF assms [unfolded sample_before_energies_def]] obtain t1 azs where
    1: "np_uniform rnd (arg_phimin a) (arg_phimax a) (arg_n_events a) tr = (t1, Inr azs)" and
    r1: "sbind (np_uniform rnd (cos (arg_thetamax a)) (cos (arg_thetamin a)) (arg_n_events a) t1) (\<lambda>u tr.
     sbind (generate_vertex_positions rnd (arg_volume a) (arg_proposal a) (arg_n_events a)
              (arg_Emax a) Map.empty tr) (\<lambda>vertices tr.
     sbind (np_randint rnd (length (arg_flavor a)) (nat (arg_n_events a)) tr) (\<lambda>idx tr.
       (tr, Inr (azs, map arccos u, vertices, map (\<lambda>i. arg_flavor a ! i) idx))))) = (tr', Inr v)"
    by blast
  from sbind_Inr [OF r1] obtain t2 u where
    2: "np_uniform rnd (cos (arg_thetamax a)) (cos (arg_thetamin a)) (arg_n_events a) t1 = (t2, Inr u)" and
    r2: "sbind (generate_vertex_positions rnd (arg_volume a) (arg_proposal a) (arg_n_events a)
              (arg_Emax a) Map.empty t2) (\<lambda>vertices tr.
     sbind (np_randint rnd (length (arg_flavor a)) (nat (arg_n_events a)) tr) (\<lambda>idx tr.
       (tr, Inr (azs, map arccos u, vertices, map (\<lambda>i. arg_flavor a ! i) idx)))) = (tr', Inr v)"
    by blast
  from sbind_Inr [OF r2] obtain t3 vs where
    3: "generate_vertex_positions rnd (arg_volume a) (arg_proposal a) (arg_n_events a)
              (arg_Emax a) Map.empty t2 = (t3, Inr vs)" and
    r3: "sbind (np_randint rnd (length (arg_flavor a)) (nat (arg_n_events a)) t3) (\<lambda>idx tr.
       (tr, Inr (azs, map arccos u, vs, map (\<lambda>i. arg_flavor a ! i) idx))) = (tr', Inr v)"
    by blast
  from sbind_Inr [OF r3] obtain t4 idx where
    4: "np_randint rnd (length (arg_flavor a)) (nat (arg_n_events a)) t3 = (t4, Inr idx)" and
    r4: "(t4, Inr (azs, map arccos u, vs, map (\<lambda>i. arg_flavor a ! i) idx)) = (tr', Inr v)"
    by blast
  from generate_vertex_positions_trace [OF 3] obtain vd where
    vd: "t3 = t2 @ vd" "length vd = 3" by blast
  from np_uniform_trace [OF 1] np_uniform_trace [OF 2] np_randint_trace [OF 4] vd r4
  have "tr' = tr @ [Uniform (arg_phimin a) (arg_phimax a) (nat (arg_n_events a)),
                       Uniform (cos (arg_thetamax a)) (cos (arg_thetamin a)) (nat (arg_n_events a))]
                    @ vd @ [Randint (length (arg_flavor a)) (nat (arg_n_events a))]"
    by simp
  with vd(2) show ?thesis by blast
qed

lemma generate_unsupported:
  assumes "\<not> supported_spectrum num (arg_spectrum a)"
  shows "generate_eventlist_cylinder num rnd cspeed gs a tr =
     (case sample_before_energies rnd a tr of
        (tr', Inl e) \<Rightarrow> (tr', Inl e)
      | (tr', Inr v) \<Rightarrow> (tr', Inl (unsupported_error (arg_spectrum a))))"
  by (simp add: generate_eventlist_cylinder_def eventlist_samples_def sbind_def
      get_energies_unsupported [OF assms] split: prod.splits sum.splits)

text \<open>
  C7, as stated, fails: the name of the spectrum is looked at only in \<open>get_energies\<close>.
  A run in a box with the spectrum name \<open>flat\<close> raises the error after six draws: the
  azimuths, the zeniths, the three vertex coordinates and the flavors.
\<close>

theorem C7_error_after_draws:
  "generate_eventlist_cylinder example_numerics example_random_source 1 (\<lambda>E c p v. [])
      (example_box_args ''flat'') []
   = ([Uniform 0 (2 * pi) 2, Uniform (- 1) 1 2, Uniform (- 1000) 1000 2,
       Uniform (- 1000) 1000 2, Uniform (- 2000) 0 2, Randint 2 2], Inl NotImplementedError)"
proof -
  from ex_before [of "''flat''"] obtain v where
    b: "sample_before_energies example_random_source (example_box_args ''flat'') [] =
     ([Uniform 0 (2 * pi) 2, Uniform (- 1) 1 2, Uniform (- 1000) 1000 2,
       Uniform (- 1000) 1000 2, Uniform (- 2000) 0 2, Randint 2 2], Inr v)" by blast
  have s: "arg_spectrum (example_box_args ''flat'') = ''flat''"
    by (simp add: example_box_args_def)
  show ?thesis
    by (simp add: generate_eventlist_cylinder_def eventlist_samples_def b sbind_def s
        get_energies_def split: prod.splits)
qed

text \<open>
  C7, amended.  A spectrum name is supported when it is one of \<open>log_uniform\<close>, \<open>GZK-1\<close>,
  \<open>IceCube-nu-2017\<close>, \<open>GZK-1+IceCube-nu-2017\<close>, or starts with \<open>E-\<close> and, without its
  first character, is read as a float.  For every other name \<open>get_energies\<close> raises
  without drawing an energy: the error of \<open>float\<close> (ValueError) when the name starts with
  \<open>E-\<close>, the unknown-spectrum error (NotImplementedError) otherwise.  The generator calls
  it after the draws of the azimuths, the zeniths, the vertex positions and the flavors:
  it fails with the error of those steps if one of them fails, and otherwise with the
  error of \<open>get_energies\<close>, these six draws made and no later one.
\<close>

theorem C7_unknown_spectrum:
  assumes "\<not> supported_spectrum num (arg_spectrum a)"
  shows "get_energies num rnd n Emin Emax (arg_spectrum a) tr =
           (tr, Inl (if take 2 (arg_spectrum a) = ''E-'' then ValueError
                     else NotImplementedError)) \<and>
         generate_eventlist_cylinder num rnd cspeed get_secondaries a tr =
           (case sample_before_energies rnd a tr of
              (tr', Inl e) \<Rightarrow> (tr', Inl e)
            | (tr', Inr v) \<Rightarrow>
                (tr', Inl (if take 2 (arg_spectrum a) = ''E-'' then ValueError
                           else NotImplementedError))) \<and>
         (\<forall>tr' v. sample_before_energies rnd a tr = (tr', Inr v) \<longrightarrow>
            (\<exists>vd. length vd = 3 \<and>
               tr' = tr @ [Uniform (arg_phimin a) (arg_phimax a) (nat (arg_n_events a)),
                           Uniform (cos (arg_thetamax a)) (cos (arg_thetamin a))
                             (nat (arg_n_events a))]
                        @ vd @ [Randint (length (arg_flavor a)) (nat (arg_n_events a))]))"
  using get_energies_unsupported [OF assms] generate_unsupported [OF assms]
    sample_before_energies_trace
  unfolding unsupported_error_def
  by blast

lemma ex_before_traced:
  "\<exists>v. sample_before_energies example_random_source (example_box_args s) [Uniform 0 1 5] =
     ([Uniform 0 1 5, Uniform 0 (2 * pi) 2, Uniform (- 1) 1 2, Uniform (- 1000) 1000 2,
       Uniform (- 1000) 1000 2, Uniform (- 2000) 0 2, Randint 2 2], Inr v)"
  by (simp add: sample_before_energies_def example_box_args_def sbind_def np_uniform_def
      np_randint_def generate_vertex_positions_def vertex_positions_box_def example_box_def
      ebind_def lookup_def Let_def)

theorem C7_unknown_spectrum_witness:
  "\<not> supported_spectrum example_numerics (arg_spectrum (example_box_args ''E^-2'')) \<and>
   generate_eventlist_cylinder example_numerics example_random_source 1 (\<lambda>E c p v. [])
      (example_box_args ''E^-2'') [Uniform 0 1 5]
   = ([Uniform 0 1 5, Uniform 0 (2 * pi) 2, Uniform (- 1) 1 2, Uniform (- 1000) 1000 2,
       Uniform (- 1000) 1000 2, Uniform (- 2000) 0 2, Randint 2 2], Inl NotImplementedError) \<and>
   \<not> supported_spectrum example_numerics (arg_spectrum (example_box_args ''E-two'')) \<and>
   generate_eventlist_cylinder example_numerics example_random_source 1 (\<lambda>E c p v. [])
      (example_box_args ''E-two'') [Uniform 0 1 5]
   = ([Uniform 0 1 5, Uniform 0 (2 * pi) 2, Uniform (- 1) 1 2, Uniform (- 1000) 1000 2,
       Uniform (- 1000) 1000 2, Uniform (- 2000) 0 2, Randint 2 2], Inl ValueError) \<and>
   supported_spectrum example_numerics ''E-2''"
proof -
  have u: "\<not> supported_spectrum example_numerics (arg_spectrum (example_box_args ''E^-2''))"
    by (simp add: supported_spectrum_def example_box_args_def)
  have u': "\<not> supported_spectrum example_numerics (arg_spectrum (example_box_args ''E-two''))"
    by (simp add: supported_spectrum_def example_box_args_def example_numerics_def)
  have s: "arg_spectrum (example_box_args ''E^-2'') = ''E^-2''"
    "arg_spectrum (example_box_args ''E-two'') = ''E-two''"
    by (simp_all add: example_box_args_def)
  from C7_unknown_spectrum [OF u, of example_random_source 2 1 10
      "[Uniform 0 1 5]" 1 "\<lambda>E c p v. []"] ex_before_traced [of "''E^-2''"]
  have 1: "generate_eventlist_cylinder example_numerics example_random_source 1 (\<lambda>E c p v. [])
      (example_box_args ''E^-2'') [Uniform 0 1 5]
   = ([Uniform 0 1 5, Uniform 0 (2 * pi) 2, Uniform (- 1) 1 2, Uniform (- 1000) 1000 2,
       Uniform (- 1000) 1000 2, Uniform (- 2000) 0 2, Randint 2 2], Inl NotImplementedError)"
    unfolding s by auto
  from C7_unknown_spectrum [OF u', of example_random_source 2 1 10
      "[Uniform 0 1 5]" 1 "\<lambda>E c p v. []"] ex_before_traced [of "''E-two''"]
  have 2: "generate_eventlist_cylinder example_numerics example_random_source 1 (\<lambda>E c p v. [])
      (example_box_args ''E-two'') [Uniform 0 1 5]
   = ([Uniform 0 1 5, Uniform 0 (2 * pi) 2, Uniform (- 1) 1 2, Uniform (- 1000) 1000 2,
       Uniform (- 1000) 1000 2, Uniform (- 2000) 0 2, Randint 2 2], Inl ValueError)"
    unfolding s by auto
  have 3: "supported_spectrum example_numerics ''E-2''"
    by (simp add: supported_spectrum_def example_numerics_def)
  from u 1 u' 2 3 show ?thesis by blast
qed

section \<open>A run without proposal\<close>

text \<open>In this version of the source a cylinder volume without proposal never reaches the
  sampling of the vertices: \<open>full_rmax\<close> is read at line 438 and assigned only at line 412.\<close>

lemma cylinder_without_proposal_raises:
  assumes "volume ''fiducial_rmax'' = Some rmax" "volume ''fiducial_zmin'' = Some zmin"
    "volume ''fiducial_zmax'' = Some zmax"
  shows "generate_vertex_positions rnd volume False n Emax attributes tr
           = (tr, Inl (UnboundLocalError ''full_rmax''))"
  using assms
  by (auto simp: generate_vertex_positions_def resolve_cylinder_def ebind_def lookup_def Let_def
      store_cylinder_def sample_cylinder_def)


lemma split_row_ids: "d' \<in> set (split_row d) \<Longrightarrow> event_group_ids d' = event_group_ids d"
  by (auto simp: split_row_def split: if_splits)










end
